theory Spec2Isabelle
  imports Complex_Main "HOL-Library.Product_Lexorder"
begin

section \<open>Common Python conventions\<close>

text \<open>
  Python floats are modelled as reals (rounding is abstracted away), Python ints as
  \<open>int\<close>, and every exception the source can raise is a value of \<open>py_error\<close>:
  a computation that may raise returns \<open>py_error + 'a\<close> with \<open>Inl\<close> the exception.
\<close>

datatype py_error =
    ZeroDivisionError
  | TypeError
  | AttributeError
  | HTTPException nat string

definition py_truediv :: "real \<Rightarrow> real \<Rightarrow> py_error + real" where
  \<comment> \<open>Python's \<open>a / b\<close> on floats: raises on a zero divisor.\<close>
  "py_truediv a b = (if b = 0 then Inl ZeroDivisionError else Inr (a / b))"

section \<open>app/config.py: ScoringWeights\<close>

record ScoringWeights =
  w1_frequency :: real
  w2_tfidf :: real
  w3_cooccurrence :: real
  w4_position_title :: real
  w5_similarity_brand :: real


definition weights_total :: "ScoringWeights \<Rightarrow> real" where
  "weights_total w =
     w1_frequency w + w2_tfidf w + w3_cooccurrence w + w4_position_title w
     + w5_similarity_brand w"

definition normalize_weights :: "ScoringWeights \<Rightarrow> py_error + ScoringWeights" where
  \<comment> \<open>The five in-place divisions run in order; the first one that raises aborts.\<close>
  "normalize_weights w =
     (let total = weights_total w in
      if total > 0 then
        (case py_truediv (w1_frequency w) total of Inl e \<Rightarrow> Inl e | Inr a1 \<Rightarrow>
         case py_truediv (w2_tfidf w) total of Inl e \<Rightarrow> Inl e | Inr a2 \<Rightarrow>
         case py_truediv (w3_cooccurrence w) total of Inl e \<Rightarrow> Inl e | Inr a3 \<Rightarrow>
         case py_truediv (w4_position_title w) total of Inl e \<Rightarrow> Inl e | Inr a4 \<Rightarrow>
         case py_truediv (w5_similarity_brand w) total of Inl e \<Rightarrow> Inl e | Inr a5 \<Rightarrow>
           Inr (w\<lparr>w1_frequency := a1, w2_tfidf := a2, w3_cooccurrence := a3,
                   w4_position_title := a4, w5_similarity_brand := a5\<rparr>))
      else Inr w)"

definition zero_weights :: ScoringWeights where
  "zero_weights = \<lparr>w1_frequency = 0, w2_tfidf = 0, w3_cooccurrence = 0,
     w4_position_title = 0, w5_similarity_brand = 0\<rparr>"


definition skewed_weights :: ScoringWeights where
  \<comment> \<open>Weights that sum to 2.\<close>
  "skewed_weights = \<lparr>w1_frequency = 0.5, w2_tfidf = 0.25, w3_cooccurrence = 0.25,
     w4_position_title = 0.5, w5_similarity_brand = 0.5\<rparr>"

definition default_weights :: ScoringWeights where
  \<comment> \<open>The field defaults of the class.\<close>
  "default_weights = \<lparr>w1_frequency = 0.3, w2_tfidf = 0.25, w3_cooccurrence = 0.2,
     w4_position_title = 0.15, w5_similarity_brand = 0.1\<rparr>"

section \<open>Python strings\<close>

text \<open>
  A Python \<open>str\<close> is modelled as a \<open>string\<close> whose characters are the code points
  0..255 (Latin-1, which holds every literal of the source, the accented Spanish letters
  included: \<open>CHR 0xED\<close> is i-acute). The string methods below are the Python ones
  restricted to that range.
\<close>

definition py_lower_char :: "char \<Rightarrow> char" where
  "py_lower_char c =
     (let n = of_char c :: nat in
      if (65 \<le> n \<and> n \<le> 90) \<or> (192 \<le> n \<and> n \<le> 222 \<and> n \<noteq> 215)
      then char_of (n + 32) else c)"

definition py_lower :: "string \<Rightarrow> string" where
  "py_lower s = map py_lower_char s"

definition py_isspace :: "char \<Rightarrow> bool" where
  "py_isspace c =
     (let n = of_char c :: nat in
      (9 \<le> n \<and> n \<le> 13) \<or> (28 \<le> n \<and> n \<le> 32) \<or> n = 133 \<or> n = 160)"

definition py_strip :: "string \<Rightarrow> string" where
  "py_strip s = rev (dropWhile py_isspace (rev (dropWhile py_isspace s)))"

fun py_startswith :: "string \<Rightarrow> string \<Rightarrow> bool" where
  "py_startswith s [] = True"
| "py_startswith [] (p # ps) = False"
| "py_startswith (c # cs) (p # ps) = (c = p \<and> py_startswith cs ps)"

fun py_in :: "string \<Rightarrow> string \<Rightarrow> bool" where
  \<comment> \<open>\<open>py_in sub s\<close> is Python's \<open>sub in s\<close>.\<close>
  "py_in sub [] = (sub = [])"
| "py_in sub (c # cs) = (py_startswith (c # cs) sub \<or> py_in sub cs)"

fun py_find :: "string \<Rightarrow> string \<Rightarrow> nat option" where
  \<comment> \<open>\<open>s.find(sub)\<close>: the lowest index, \<open>None\<close> for Python's \<open>-1\<close>.\<close>
  "py_find [] sub = (if sub = [] then Some 0 else None)"
| "py_find (c # cs) sub =
     (if py_startswith (c # cs) sub then Some 0
      else map_option Suc (py_find cs sub))"

fun py_split_acc :: "string \<Rightarrow> string \<Rightarrow> string list" where
  "py_split_acc cur [] = (if cur = [] then [] else [rev cur])"
| "py_split_acc cur (c # cs) =
     (if py_isspace c then (if cur = [] then [] else [rev cur]) @ py_split_acc [] cs
      else py_split_acc (c # cur) cs)"

definition py_split :: "string \<Rightarrow> string list" where
  \<comment> \<open>\<open>s.split()\<close>: the maximal runs of non-whitespace characters.\<close>
  "py_split s = py_split_acc [] s"

fun py_join :: "string \<Rightarrow> string list \<Rightarrow> string" where
  "py_join sep [] = []"
| "py_join sep [x] = x"
| "py_join sep (x # y # ys) = x @ sep @ py_join sep (y # ys)"

function py_remove_all :: "string \<Rightarrow> string \<Rightarrow> string" where
  \<comment> \<open>\<open>s.replace(old, '')\<close> for a non-empty \<open>old\<close>.\<close>
  "py_remove_all old [] = []"
| "py_remove_all old (c # cs) =
     (if old \<noteq> [] \<and> py_startswith (c # cs) old
      then py_remove_all old (drop (length old) (c # cs))
      else c # py_remove_all old cs)"
  by pat_completeness auto
termination
  by (relation "measure (\<lambda>(old, s). length s)") (auto simp: neq_Nil_conv)

definition py_str_opt :: "string option \<Rightarrow> string" where
  \<comment> \<open>An f-string field: \<open>None\<close> is rendered as the text None.\<close>
  "py_str_opt v = (case v of None \<Rightarrow> ''None'' | Some s \<Rightarrow> s)"

definition py_slice_to :: "int \<Rightarrow> 'a list \<Rightarrow> 'a list" where
  \<comment> \<open>\<open>xs[:n]\<close>; a negative \<open>n\<close> counts from the end.\<close>
  "py_slice_to n xs =
     (if 0 \<le> n then take (nat n) xs else take (nat (int (length xs) + n)) xs)"

fun insert_desc :: "('a \<Rightarrow> 'k::linorder) \<Rightarrow> 'a \<Rightarrow> 'a list \<Rightarrow> 'a list" where
  "insert_desc key x [] = [x]"
| "insert_desc key x (y # ys) =
     (if key x < key y then y # insert_desc key x ys else x # y # ys)"

fun sort_desc :: "('a \<Rightarrow> 'k::linorder) \<Rightarrow> 'a list \<Rightarrow> 'a list" where
  \<comment> \<open>\<open>xs.sort(key=key, reverse=True)\<close>: descending and stable (equal keys keep their
      original order).\<close>
  "sort_desc key [] = []"
| "sort_desc key (x # xs) = insert_desc key x (sort_desc key xs)"

section \<open>app/services/scorer.py: KeywordScorer\<close>

record MetaData =
  title :: "string option"
  description :: "string option"

record Headings =
  h1 :: "string list"
  h2 :: "string list"
  h3 :: "string list"

record TextData =
  main_content :: string
  meta :: MetaData
  headings :: Headings

record BrandInfo =
  brand_name :: "string option"
  brand_domain :: "string option"

text \<open>
  The collaborators of the scorer that live outside it: the regular-expression text
  utilities and the TF-IDF vectoriser of scikit-learn. Each may raise. The vectoriser
  answers with its feature names, each with the largest entry of its column.
\<close>

record ScorerEnv =
  normalize_text :: "string \<Rightarrow> py_error + string"
  tokenize_text :: "string \<Rightarrow> py_error + string list"
  tfidf_features :: "string list \<Rightarrow> py_error + (string \<times> real) list"
  settings_scoring_weights :: ScoringWeights

definition or_zero :: "py_error + real \<Rightarrow> real" where
  \<comment> \<open>\<open>try: ... except Exception: return 0.0\<close>\<close>
  "or_zero r = (case r of Inl e \<Rightarrow> 0 | Inr v \<Rightarrow> v)"

definition count_occurrences :: "string list \<Rightarrow> string list \<Rightarrow> nat" where
  \<comment> \<open>The windows \<open>tokens[i:i+len(kt)] == kt\<close> for \<open>i\<close> in
      \<open>range(len(tokens) - len(kt) + 1)\<close>.\<close>
  "count_occurrences tokens kt =
     length (filter (\<lambda>i. take (length kt) (drop i tokens) = kt)
       [0 ..< nat (int (length tokens) - int (length kt) + 1)])"

definition frequency_body :: "ScorerEnv \<Rightarrow> string \<Rightarrow> TextData \<Rightarrow> py_error + real" where
  "frequency_body env keyword text_data =
     (let all_text0 = main_content text_data @ '' '' @ py_str_opt (title (meta text_data))
            @ '' '' @ py_str_opt (description (meta text_data));
          all_text = all_text0
            @ '' '' @ py_join '' '' (h1 (headings text_data))
            @ '' '' @ py_join '' '' (h2 (headings text_data))
            @ '' '' @ py_join '' '' (h3 (headings text_data))
      in case normalize_text env all_text of Inl e \<Rightarrow> Inl e | Inr normalized_text \<Rightarrow>
         case tokenize_text env normalized_text of Inl e \<Rightarrow> Inl e | Inr tokens \<Rightarrow>
           if tokens = [] then Inr 0
           else
             let keyword_lower = py_lower keyword;
                 keyword_tokens = py_split keyword_lower;
                 count = (if length keyword_tokens = 1
                          then length (filter (\<lambda>t. t = keyword_lower) tokens)
                          else count_occurrences tokens keyword_tokens);
                 total_words = length tokens;
                 frequency = real count / real total_words
             in if frequency > 0 then Inr (min 1 (ln (1 + frequency * 100))) else Inr 0)"

definition calculate_frequency_score :: "ScorerEnv \<Rightarrow> string \<Rightarrow> TextData \<Rightarrow> real" where
  "calculate_frequency_score env keyword text_data =
     or_zero (frequency_body env keyword text_data)"

fun max_list :: "real list \<Rightarrow> real" where
  "max_list [] = 0"
| "max_list [x] = x"
| "max_list (x # y # ys) = max x (max_list (y # ys))"

definition calculate_tfidf_scores ::
  "ScorerEnv \<Rightarrow> string list \<Rightarrow> string list \<Rightarrow> (string \<times> real) list" where
  \<comment> \<open>NLPService.calculate_tfidf_scores: the result dictionary as an association list in
      insertion order; any exception gives the empty dictionary.\<close>
  "calculate_tfidf_scores env keywords corpus =
     (if corpus = [] \<or> keywords = [] then []
      else case tfidf_features env corpus of
        Inl e \<Rightarrow> []
      | Inr feats \<Rightarrow>
          map (\<lambda>keyword.
            let keyword_lower = py_lower keyword;
                matches = filter (\<lambda>(name, v). py_in keyword_lower name \<or> py_in name keyword_lower) feats
            in (keyword, if matches \<noteq> [] then max_list (map snd matches) else 0)) keywords)"

definition tfidf_body :: "ScorerEnv \<Rightarrow> string \<Rightarrow> TextData \<Rightarrow> py_error + real" where
  "tfidf_body env keyword text_data =
     (let document = main_content text_data @ '' '' @ py_str_opt (title (meta text_data))
            @ '' '' @ py_str_opt (description (meta text_data));
          tfidf_scores = calculate_tfidf_scores env [keyword] [document]
      in Inr (case map_of (rev tfidf_scores) keyword of None \<Rightarrow> 0 | Some v \<Rightarrow> v))"

definition calculate_tfidf_score :: "ScorerEnv \<Rightarrow> string \<Rightarrow> TextData \<Rightarrow> real" where
  "calculate_tfidf_score env keyword text_data = or_zero (tfidf_body env keyword text_data)"

definition cooccurrence_body :: "string \<Rightarrow> TextData \<Rightarrow> py_error + real" where
  "cooccurrence_body keyword text_data =
     (let important_text =
            (case title (meta text_data) of
               None \<Rightarrow> []
             | Some t \<Rightarrow> (if t \<noteq> [] then [t] else []))
            @ h1 (headings text_data) @ take 3 (h2 (headings text_data));
          keyword_lower = py_lower keyword;
          nonempty = filter (\<lambda>t. t \<noteq> []) important_text;
          cooccurrence_count = length (filter (\<lambda>t. py_in keyword_lower (py_lower t)) nonempty);
          total_important_text = sum_list (map (\<lambda>t. length (py_split (py_lower t))) nonempty)
      in if total_important_text = 0 then Inr 0
         else Inr (min 1 (if important_text \<noteq> []
                          then real cooccurrence_count / real (length important_text) else 0)))"

definition calculate_cooccurrence_score :: "string \<Rightarrow> TextData \<Rightarrow> real" where
  "calculate_cooccurrence_score keyword text_data = or_zero (cooccurrence_body keyword text_data)"

definition position_body :: "string \<Rightarrow> TextData \<Rightarrow> py_error + real" where
  "position_body keyword text_data =
     (case title (meta text_data) of
        None \<Rightarrow> Inr 0
      | Some t \<Rightarrow>
          if t = [] then Inr 0
          else
            let title_lower = py_lower t; keyword_lower = py_lower keyword
            in case py_find title_lower keyword_lower of
                 None \<Rightarrow> Inr 0
               | Some keyword_pos \<Rightarrow>
                   if length title_lower = 0 then Inr 0
                   else Inr (max 0 (1 - real keyword_pos / real (length title_lower))))"

definition calculate_position_score :: "string \<Rightarrow> TextData \<Rightarrow> real" where
  "calculate_position_score keyword text_data = or_zero (position_body keyword text_data)"

definition py_truthy :: "string option \<Rightarrow> bool" where
  \<comment> \<open>The truth value of a \<open>str\<close>-or-\<open>None\<close>.\<close>
  "py_truthy v = (case v of None \<Rightarrow> False | Some s \<Rightarrow> s \<noteq> [])"

definition similarity_body :: "string \<Rightarrow> BrandInfo \<Rightarrow> py_error + real" where
  "similarity_body keyword brand_info =
     (if \<not> py_truthy (brand_name brand_info) \<and> \<not> py_truthy (brand_domain brand_info) then Inr 0
      else
        let keyword_lower = py_lower keyword;
            brand_similarity =
              (case brand_name brand_info of
                 None \<Rightarrow> 0
               | Some b \<Rightarrow>
                   if b = [] then 0
                   else
                     let brand_lower = py_lower b
                     in if keyword_lower = brand_lower then 1
                        else if py_in keyword_lower brand_lower \<or> py_in brand_lower keyword_lower
                          then 0.7
                        else if list_ex (\<lambda>word. py_in word keyword_lower) (py_split brand_lower)
                          then 0.5
                        else 0);
            domain_similarity =
              (case brand_domain brand_info of
                 None \<Rightarrow> 0
               | Some d \<Rightarrow>
                   if d = [] then 0
                   else
                     let domain_name =
                           takeWhile (\<lambda>c. c \<noteq> CHR ''.'') (py_remove_all ''www.'' d);
                         domain_lower = py_lower domain_name
                     in if keyword_lower = domain_lower then 0.8
                        else if py_in keyword_lower domain_lower \<or> py_in domain_lower keyword_lower
                          then 0.6
                        else 0)
        in Inr (max brand_similarity domain_similarity))"

definition calculate_similarity_score :: "string \<Rightarrow> BrandInfo \<Rightarrow> real" where
  "calculate_similarity_score keyword brand_info = or_zero (similarity_body keyword brand_info)"

definition effective_weights :: "ScorerEnv \<Rightarrow> ScoringWeights option \<Rightarrow> ScoringWeights" where
  \<comment> \<open>\<open>if weights is None: weights = settings.scoring_weights\<close>\<close>
  "effective_weights env weights_opt =
     (case weights_opt of None \<Rightarrow> settings_scoring_weights env | Some w \<Rightarrow> w)"

text \<open>
  The outer \<open>try\<close> of \<open>calculate_keyword_score\<close> answers 0.0 on any exception. With
  the five sub-scores total (each has its own handler) and the weights a record, nothing
  in its body raises, so that branch has no counterpart below.
\<close>

definition calculate_keyword_score ::
  "ScorerEnv \<Rightarrow> string \<Rightarrow> TextData \<Rightarrow> BrandInfo \<Rightarrow> ScoringWeights option \<Rightarrow> real" where
  "calculate_keyword_score env keyword text_data brand_info weights_opt =
     (let weights = effective_weights env weights_opt;
          freq_score = calculate_frequency_score env keyword text_data;
          tfidf_score = calculate_tfidf_score env keyword text_data;
          cooccurrence_score = calculate_cooccurrence_score keyword text_data;
          position_score = calculate_position_score keyword text_data;
          similarity_score = calculate_similarity_score keyword brand_info;
          final_score =
            w1_frequency weights * freq_score + w2_tfidf weights * tfidf_score
            + w3_cooccurrence weights * cooccurrence_score
            + w4_position_title weights * position_score
            + w5_similarity_brand weights * similarity_score
      in max 0 (min 1 final_score))"

subsection \<open>Bucket classification\<close>

record KeywordScore =
  kw_term :: string
  kw_score :: real

datatype bucket = cliente | producto_o_post | generales_seo

record KeywordsBuckets =
  b_cliente :: "KeywordScore list"
  b_producto_o_post :: "KeywordScore list"
  b_generales_seo :: "KeywordScore list"

definition product_keywords :: "string list" where
  "product_keywords =
     [''precio'', ''comprar'', ''oferta'', ''descuento'', ''env'' @ [CHR 0xED] @ ''o'',
      ''entrega'', ''talla'', ''color'', ''marca'', ''modelo'', ''especificaciones'']"

definition blog_keywords :: "string list" where
  "blog_keywords =
     [''tutorial'', ''gu'' @ [CHR 0xED] @ ''a'', ''c'' @ [CHR 0xF3] @ ''mo'', ''paso'',
      ''m'' @ [CHR 0xE9] @ ''todo'', ''t'' @ [CHR 0xE9] @ ''cnica'', ''ejemplo'', ''caso'',
      ''experiencia'', ''opini'' @ [CHR 0xF3] @ ''n'', ''review'']"

definition domain_freq :: "(string \<rightharpoonup> real) option \<Rightarrow> string \<Rightarrow> real option" where
  \<comment> \<open>\<open>domain_keywords[keyword]\<close> when \<open>domain_keywords and keyword in domain_keywords\<close>
      holds, \<open>None\<close> otherwise.\<close>
  "domain_freq domain_keywords keyword =
     (case domain_keywords of None \<Rightarrow> None | Some m \<Rightarrow> m keyword)"

definition classify_body ::
  "string \<Rightarrow> real \<Rightarrow> string \<Rightarrow> BrandInfo \<Rightarrow> (string \<rightharpoonup> real) option \<Rightarrow> py_error + bucket" where
  \<comment> \<open>\<open>brand_info.get('name', '')\<close> is \<open>None\<close> when the key holds \<open>None\<close>, and
      \<open>None.lower()\<close> raises.\<close>
  "classify_body keyword score page_type brand_info domain_keywords =
     (let keyword_lower = py_lower keyword in
      case brand_name brand_info of None \<Rightarrow> Inl AttributeError | Some bn \<Rightarrow>
      case brand_domain brand_info of None \<Rightarrow> Inl AttributeError | Some bd \<Rightarrow>
        let brand_name_l = py_lower bn; brand_domain_l = py_lower bd in
        if brand_name_l \<noteq> [] \<and> (keyword_lower = brand_name_l \<or> py_in keyword_lower brand_name_l
             \<or> py_in brand_name_l keyword_lower) then Inr cliente
        else if brand_domain_l \<noteq> [] \<and> py_in keyword_lower brand_domain_l then Inr cliente
        else if (case domain_freq domain_keywords keyword of
                   None \<Rightarrow> False | Some domain_freq_v \<Rightarrow> domain_freq_v > 0.1)
          then Inr cliente
        else if page_type = ''ecommerce'' then
          (if list_ex (\<lambda>pk. py_in pk keyword_lower) product_keywords then Inr producto_o_post
           else if domain_freq domain_keywords keyword \<noteq> None then Inr generales_seo
           else Inr producto_o_post)
        else if page_type = ''blog'' then
          (if list_ex (\<lambda>bk. py_in bk keyword_lower) blog_keywords then Inr producto_o_post
           else if domain_freq domain_keywords keyword \<noteq> None then Inr generales_seo
           else Inr producto_o_post)
        else
          (if domain_freq domain_keywords keyword \<noteq> None then Inr generales_seo
           else Inr producto_o_post))"

definition classify_keyword_bucket ::
  "string \<Rightarrow> real \<Rightarrow> string \<Rightarrow> BrandInfo \<Rightarrow> (string \<rightharpoonup> real) option \<Rightarrow> bucket" where
  "classify_keyword_bucket keyword score page_type brand_info domain_keywords =
     (case classify_body keyword score page_type brand_info domain_keywords of
        Inl e \<Rightarrow> generales_seo
      | Inr b \<Rightarrow> b)"

definition empty_buckets :: KeywordsBuckets where
  "empty_buckets = \<lparr>b_cliente = [], b_producto_o_post = [], b_generales_seo = []\<rparr>"

definition bucket_append :: "bucket \<Rightarrow> KeywordScore \<Rightarrow> KeywordsBuckets \<Rightarrow> KeywordsBuckets" where
  \<comment> \<open>\<open>buckets[bucket].append(...)\<close>\<close>
  "bucket_append b e bs =
     (case b of
        cliente \<Rightarrow> bs\<lparr>b_cliente := b_cliente bs @ [e]\<rparr>
      | producto_o_post \<Rightarrow> bs\<lparr>b_producto_o_post := b_producto_o_post bs @ [e]\<rparr>
      | generales_seo \<Rightarrow> bs\<lparr>b_generales_seo := b_generales_seo bs @ [e]\<rparr>)"

definition bucket_step ::
  "string \<Rightarrow> BrandInfo \<Rightarrow> (string \<rightharpoonup> real) option \<Rightarrow> KeywordsBuckets \<Rightarrow> KeywordScore
   \<Rightarrow> KeywordsBuckets" where
  \<comment> \<open>One iteration of the loop over \<open>keywords\<close>.\<close>
  "bucket_step page_type brand_info domain_keywords bs keyword_data =
     (let keyword = kw_term keyword_data; score = kw_score keyword_data;
          b = classify_keyword_bucket keyword score page_type brand_info domain_keywords
      in bucket_append b \<lparr>kw_term = keyword, kw_score = score\<rparr> bs)"

definition finish_bucket :: "KeywordScore list \<Rightarrow> KeywordScore list" where
  \<comment> \<open>Sort by score, descending, and keep the top 30.\<close>
  "finish_bucket xs = take 30 (sort_desc kw_score xs)"

definition bucketize_keywords ::
  "KeywordScore list \<Rightarrow> string \<Rightarrow> BrandInfo \<Rightarrow> (string \<rightharpoonup> real) option \<Rightarrow> KeywordsBuckets" where
  "bucketize_keywords keywords page_type brand_info domain_keywords =
     (let buckets = foldl (bucket_step page_type brand_info domain_keywords) empty_buckets keywords
      in \<lparr>b_cliente = finish_bucket (b_cliente buckets),
          b_producto_o_post = finish_bucket (b_producto_o_post buckets),
          b_generales_seo = finish_bucket (b_generales_seo buckets)\<rparr>)"

definition received ::
  "KeywordScore list \<Rightarrow> string \<Rightarrow> BrandInfo \<Rightarrow> (string \<rightharpoonup> real) option \<Rightarrow> bucket \<Rightarrow> nat" where
  \<comment> \<open>How many of the input keywords are classified into a bucket.\<close>
  "received keywords page_type brand_info domain_keywords b =
     length (filter (\<lambda>kd. classify_keyword_bucket (kw_term kd) (kw_score kd) page_type brand_info
                             domain_keywords = b) keywords)"

definition terms_of :: "KeywordScore list \<Rightarrow> string set" where
  "terms_of ks = kw_term ` set ks"

definition bucket_union :: "KeywordsBuckets \<Rightarrow> string set" where
  "bucket_union bs =
     terms_of (b_cliente bs) \<union> terms_of (b_producto_o_post bs) \<union> terms_of (b_generales_seo bs)"

definition no_brand :: BrandInfo where
  "no_brand = \<lparr>brand_name = Some [], brand_domain = Some []\<rparr>"

definition overflow_keywords :: "KeywordScore list" where
  \<comment> \<open>31 keywords a, aa, aaa, ... with the same score.\<close>
  "overflow_keywords =
     map (\<lambda>n. \<lparr>kw_term = replicate (Suc n) CHR ''a'', kw_score = 1 / 2\<rparr>) [0 ..< 31]"

definition acme_brand :: BrandInfo where
  "acme_brand = \<lparr>brand_name = Some ''Acme'', brand_domain = Some ''acme.com''\<rparr>"

definition sample_keywords :: "KeywordScore list" where
  "sample_keywords =
     [\<lparr>kw_term = ''acme shoes'', kw_score = 0.9\<rparr>,
      \<lparr>kw_term = ''precio'', kw_score = 0.4\<rparr>,
      \<lparr>kw_term = ''running'', kw_score = 0.7\<rparr>]"

definition sample_domain_keywords :: "string \<rightharpoonup> real" where
  "sample_domain_keywords = [''running'' \<mapsto> 0.05]"

definition failing_env :: ScorerEnv where
  "failing_env = \<lparr>normalize_text = (\<lambda>s. Inl TypeError), tokenize_text = (\<lambda>s. Inr (py_split s)),
     tfidf_features = (\<lambda>docs. Inl TypeError), settings_scoring_weights = default_weights\<rparr>"

definition sample_text :: TextData where
  "sample_text = \<lparr>main_content = ''acme running shoes for every runner'',
     meta = \<lparr>title = Some ''Acme shoes'', description = None\<rparr>,
     headings = \<lparr>h1 = [''Acme''], h2 = [], h3 = []\<rparr>\<rparr>"

section \<open>app/services/nlp.py: NLPService\<close>

record KeywordCandidate =
  kc_term :: string
  kc_score :: real
  kc_source :: string

text \<open>
  The collaborators of the NLP service: the text normaliser, the two keyword providers
  (YAKE and KeyBERT, each behind its asynchronous wrapper, each of which may raise), the
  sentence embedder (\<open>None\<close> when the model is not loaded) and the cosine of two
  embeddings. The embedder maps each term to its vector, so an entry of the similarity
  matrix depends only on the two terms it compares.
\<close>

record 'v NLPEnv =
  nlp_normalize_text :: "string \<Rightarrow> py_error + string"
  extract_with_yake :: "string \<Rightarrow> py_error + KeywordCandidate list"
  extract_with_keybert :: "string \<Rightarrow> py_error + KeywordCandidate list"
  sentence_transformer :: "(string \<Rightarrow> 'v) option"
  cosine_similarity :: "'v \<Rightarrow> 'v \<Rightarrow> real"
  similarity_threshold :: real

fun dedup_inner ::
  "(nat \<Rightarrow> nat \<Rightarrow> real) \<Rightarrow> real \<Rightarrow> KeywordCandidate list \<Rightarrow> nat \<Rightarrow> nat list \<Rightarrow> nat set
   \<Rightarrow> nat set" where
  \<comment> \<open>The loop over \<open>j\<close> for one \<open>i\<close>; \<open>break\<close> leaves it at once.\<close>
  "dedup_inner sim thr keywords i [] to_remove = to_remove"
| "dedup_inner sim thr keywords i (j # js) to_remove =
     (if j \<in> to_remove then dedup_inner sim thr keywords i js to_remove
      else if sim i j > thr then
        (if kc_score (keywords ! i) \<ge> kc_score (keywords ! j)
         then dedup_inner sim thr keywords i js (insert j to_remove)
         else insert i to_remove)
      else dedup_inner sim thr keywords i js to_remove)"

definition dedup_outer_step ::
  "(nat \<Rightarrow> nat \<Rightarrow> real) \<Rightarrow> real \<Rightarrow> KeywordCandidate list \<Rightarrow> nat set \<Rightarrow> nat \<Rightarrow> nat set" where
  "dedup_outer_step sim thr keywords to_remove i =
     (if i \<in> to_remove then to_remove
      else dedup_inner sim thr keywords i [Suc i ..< length keywords] to_remove)"

definition dedup_to_remove ::
  "(nat \<Rightarrow> nat \<Rightarrow> real) \<Rightarrow> real \<Rightarrow> KeywordCandidate list \<Rightarrow> nat set" where
  "dedup_to_remove sim thr keywords =
     foldl (dedup_outer_step sim thr keywords) {} [0 ..< length keywords]"

definition keep_indices :: "nat set \<Rightarrow> 'a list \<Rightarrow> 'a list" where
  \<comment> \<open>\<open>[kw for i, kw in enumerate(keywords) if i not in to_remove]\<close>\<close>
  "keep_indices to_remove xs =
     map snd (filter (\<lambda>(i, kw). i \<notin> to_remove) (enumerate 0 xs))"

definition deduplicate_by_similarity ::
  "'v NLPEnv \<Rightarrow> KeywordCandidate list \<Rightarrow> KeywordCandidate list" where
  "deduplicate_by_similarity env keywords =
     (if length keywords \<le> 1 then keywords
      else case sentence_transformer env of
        None \<Rightarrow> keywords
      | Some encode \<Rightarrow>
          let terms = map kc_term keywords;
              embeddings = map encode terms;
              similarity_matrix = (\<lambda>i j. cosine_similarity env (embeddings ! i) (embeddings ! j));
              to_remove = dedup_to_remove similarity_matrix (similarity_threshold env) keywords
          in keep_indices to_remove keywords)"

definition laptop_env :: "string NLPEnv" where
  \<comment> \<open>A toy embedder: a term is its own embedding, and two terms that both mention
      laptop have cosine 0.95, any other pair 0.1.\<close>
  "laptop_env =
     \<lparr>nlp_normalize_text = (\<lambda>s. Inr s),
      extract_with_yake = (\<lambda>s. Inr []),
      extract_with_keybert = (\<lambda>s. Inr []),
      sentence_transformer = Some (\<lambda>s. s),
      cosine_similarity = (\<lambda>a b. if py_in ''laptop'' a \<and> py_in ''laptop'' b then 0.95 else 0.1),
      similarity_threshold = 0.85\<rparr>"

definition laptop_candidates :: "KeywordCandidate list" where
  "laptop_candidates =
     [\<lparr>kc_term = ''best laptop'', kc_score = 0.9, kc_source = ''yake''\<rparr>,
      \<lparr>kc_term = ''top laptop'', kc_score = 0.85, kc_source = ''keybert''\<rparr>,
      \<lparr>kc_term = ''red shoes'', kc_score = 0.5, kc_source = ''yake''\<rparr>]"

subsection \<open>Keyword extraction and fusion\<close>

fun group_insert ::
  "string \<Rightarrow> KeywordCandidate \<Rightarrow> (string \<times> KeywordCandidate list) list
   \<Rightarrow> (string \<times> KeywordCandidate list) list" where
  \<comment> \<open>\<open>exact_groups[term].append(kw)\<close> on a dictionary kept in insertion order.\<close>
  "group_insert key kw [] = [(key, [kw])]"
| "group_insert key kw ((k, g) # rest) =
     (if k = key then (k, g @ [kw]) # rest else (k, g) # group_insert key kw rest)"

definition exact_groups :: "KeywordCandidate list \<Rightarrow> (string \<times> KeywordCandidate list) list" where
  "exact_groups all_keywords =
     foldl (\<lambda>groups kw. group_insert (py_strip (py_lower (kc_term kw))) kw groups) [] all_keywords"

fun merge_group :: "KeywordCandidate list \<Rightarrow> KeywordCandidate list" where
  \<comment> \<open>One group gives one merged keyword; a group is never empty. The sources of a
      merged keyword are joined in the order of a Python set, which is unspecified: the
      order of first occurrence stands for it here.\<close>
  "merge_group [] = []"
| "merge_group [kw] = [kw]"
| "merge_group (kw # kws) =
     [\<lparr>kc_term = kc_term kw,
       kc_score = sum_list (map kc_score (kw # kws)) / real (length (kw # kws)),
       kc_source = py_join ''+'' (remdups (map kc_source (kw # kws)))\<rparr>]"

definition merge_keyword_results ::
  "'v NLPEnv \<Rightarrow> KeywordCandidate list \<Rightarrow> KeywordCandidate list \<Rightarrow> KeywordCandidate list" where
  "merge_keyword_results env yake_results keybert_results =
     (let all_keywords = yake_results @ keybert_results in
      if all_keywords = [] then []
      else
        let merged_keywords = concat (map (\<lambda>(t, g). merge_group g) (exact_groups all_keywords));
            final_keywords = deduplicate_by_similarity env merged_keywords
        in sort_desc kc_score final_keywords)"

definition or_empty :: "py_error + 'a list \<Rightarrow> 'a list" where
  \<comment> \<open>A provider that raised counts as the empty list.\<close>
  "or_empty r = (case r of Inl e \<Rightarrow> [] | Inr xs \<Rightarrow> xs)"

definition extract_keywords ::
  "'v NLPEnv \<Rightarrow> string \<Rightarrow> int \<Rightarrow> KeywordCandidate list \<times> string list" where
  \<comment> \<open>The result, and the providers that were invoked, in order. Any exception of the
      body (here: of the normaliser) gives the empty list.\<close>
  "extract_keywords env text max_keywords =
     (if text = [] \<or> length (py_strip text) < 50 then ([], [])
      else case nlp_normalize_text env text of
        Inl e \<Rightarrow> ([], [])
      | Inr normalized_text \<Rightarrow>
          let yake_keywords = or_empty (extract_with_yake env normalized_text);
              keybert_keywords = or_empty (extract_with_keybert env normalized_text);
              merged_keywords = merge_keyword_results env yake_keywords keybert_keywords;
              final_keywords = py_slice_to max_keywords merged_keywords
          in (final_keywords, [''yake'', ''keybert'']))"

definition fixed_providers_env :: "string NLPEnv" where
  \<comment> \<open>Providers that answer the same two candidates for every text.\<close>
  "fixed_providers_env =
     \<lparr>nlp_normalize_text = (\<lambda>s. Inr (py_lower s)),
      extract_with_yake = (\<lambda>s. Inr [\<lparr>kc_term = ''laptop'', kc_score = 0.8, kc_source = ''yake''\<rparr>]),
      extract_with_keybert =
        (\<lambda>s. Inr [\<lparr>kc_term = ''laptop'', kc_score = 0.6, kc_source = ''keybert''\<rparr>]),
      sentence_transformer = Some (\<lambda>s. s),
      cosine_similarity = (\<lambda>a b. if a = b then 1 else 0),
      similarity_threshold = 0.85\<rparr>"

section \<open>app/main.py: the domain endpoint\<close>

record URLAnalysisResponse =
  ua_url :: string
  ua_tipo :: string
  ua_keywords :: KeywordsBuckets

record DomainSummary =
  total_urls :: nat
  por_tipo :: "(string \<times> nat) list"
  top_keywords_cliente :: "KeywordScore list"
  top_keywords_producto :: "KeywordScore list"
  top_keywords_generales :: "KeywordScore list"

record DomainAnalysisResponse =
  dr_domain :: string
  resumen :: DomainSummary
  dr_urls :: "URLAnalysisResponse list"

text \<open>
  What \<open>asyncio.gather(..., return_exceptions=True)\<close> holds for one URL: the response
  that \<open>process_url\<close> built, the \<open>None\<close> it returns when the fetch or any later step
  failed, or an exception object.
\<close>

datatype 'r gathered = Response 'r | NoneResult | ExceptionResult py_error

fun score_insert :: "string \<Rightarrow> real \<Rightarrow> (string \<times> real list) list \<Rightarrow> (string \<times> real list) list" where
  "score_insert keyword score [] = [(keyword, [score])]"
| "score_insert keyword score ((k, ss) # rest) =
     (if k = keyword then (k, ss @ [score]) # rest else (k, ss) # score_insert keyword score rest)"

definition bucket_of :: "bucket \<Rightarrow> KeywordsBuckets \<Rightarrow> KeywordScore list" where
  "bucket_of b bs =
     (case b of cliente \<Rightarrow> b_cliente bs | producto_o_post \<Rightarrow> b_producto_o_post bs
      | generales_seo \<Rightarrow> b_generales_seo bs)"

definition get_top_keywords_by_bucket ::
  "KeywordsBuckets list \<Rightarrow> bucket \<Rightarrow> int \<Rightarrow> KeywordScore list" where
  \<comment> \<open>Scores of a term are averaged over the pages that hold it. Each list of scores is
      non-empty, so the division cannot raise.\<close>
  "get_top_keywords_by_bucket all_url_results bucket_name top_n =
     (let keyword_scores =
            foldl (\<lambda>acc kd. score_insert (kw_term kd) (kw_score kd) acc) []
              (concat (map (bucket_of bucket_name) all_url_results));
          top_keywords =
            map (\<lambda>(keyword, scores).
                   \<lparr>kw_term = keyword, kw_score = sum_list scores / real (length scores)\<rparr>)
              keyword_scores
      in py_slice_to top_n (sort_desc kw_score top_keywords))"

definition create_domain_summary :: "URLAnalysisResponse list \<Rightarrow> DomainSummary" where
  "create_domain_summary url_results =
     (let count = (\<lambda>t. length (filter (\<lambda>r. ua_tipo r = t) url_results));
          all_keywords_data = map ua_keywords url_results
      in \<lparr>total_urls = length url_results,
          por_tipo = [(''ecommerce'', count ''ecommerce''), (''blog'', count ''blog''),
                      (''mixto'', count ''mixto'')],
          top_keywords_cliente = get_top_keywords_by_bucket all_keywords_data cliente 20,
          top_keywords_producto = get_top_keywords_by_bucket all_keywords_data producto_o_post 20,
          top_keywords_generales = get_top_keywords_by_bucket all_keywords_data generales_seo 20\<rparr>)"

fun valid_results_of :: "'r gathered list \<Rightarrow> 'r list" where
  \<comment> \<open>The results that are \<open>URLAnalysisResponse\<close> objects, in order.\<close>
  "valid_results_of [] = []"
| "valid_results_of (Response r # rs) = r # valid_results_of rs"
| "valid_results_of (NoneResult # rs) = valid_results_of rs"
| "valid_results_of (ExceptionResult e # rs) = valid_results_of rs"

definition no_valid_urls_detail :: string where
  "no_valid_urls_detail = ''No se pudieron procesar URLs v'' @ [CHR 0xE1] @ ''lidas''"

definition analyze_domain ::
  "string \<Rightarrow> string list \<Rightarrow> (string \<Rightarrow> URLAnalysisResponse gathered)
   \<Rightarrow> py_error + DomainAnalysisResponse" where
  \<comment> \<open>\<open>urls_to_process\<close> is what \<open>get_intelligent_urls\<close> returned and \<open>process_url\<close>
      the outcome of the task of each URL. With no URL at all, the early answer is built
      without the required fields \<open>por_tipo\<close> and \<open>resumen\<close>: constructing it raises a
      validation error, which the last handler turns into a 500 whose detail starts with
      the text below.\<close>
  "analyze_domain request_domain urls_to_process process_url =
     (if urls_to_process = [] then
        Inl (HTTPException 500 ''Error interno analizando dominio: '')
      else
        let results = map process_url urls_to_process;
            valid_results = valid_results_of results
        in if valid_results = [] then Inl (HTTPException 500 no_valid_urls_detail)
           else Inr \<lparr>dr_domain = request_domain,
                     resumen = create_domain_summary valid_results,
                     dr_urls = valid_results\<rparr>)"

section \<open>app/services/fetcher.py: HTTPFetcher\<close>

text \<open>
  One pass through the body of the \<open>try\<close>: the rate limiter, the GET and
  \<open>raise_for_status\<close>. It ends with the response, with an \<open>HTTPStatusError\<close> that
  carries the status code, with a \<open>RequestError\<close> (transport level) or with any other
  exception. The outcome of each attempt is given by the network, a function of the
  attempt number.
\<close>

datatype 'r attempt_outcome =
    Success 'r
  | HTTPStatusError nat
  | RequestError
  | OtherException

datatype fetch_event = Request nat | Sleep nat

fun fetch_attempts ::
  "(nat \<Rightarrow> 'r attempt_outcome) \<Rightarrow> int \<Rightarrow> nat list \<Rightarrow> 'r option \<times> fetch_event list" where
  \<comment> \<open>The \<open>for\<close> loop over the remaining attempts; the events are the requests issued
      and the back-off sleeps (in seconds), in order. Falling out of the loop, by
      exhaustion or by \<open>break\<close>, returns \<open>None\<close>.\<close>
  "fetch_attempts outcome retries [] = (None, [])"
| "fetch_attempts outcome retries (attempt # rest) =
     (let continue =
            (let (result, events) = fetch_attempts outcome retries rest
             in (result,
                 Request attempt
                 # (if int attempt < retries then [Sleep (2 ^ attempt)] else []) @ events))
      in case outcome attempt of
           Success response \<Rightarrow> (Some response, [Request attempt])
         | HTTPStatusError status_code \<Rightarrow>
             if status_code \<in> {404, 403, 401} then (None, [Request attempt]) else continue
         | RequestError \<Rightarrow> continue
         | OtherException \<Rightarrow> continue)"

definition fetch_url ::
  "(nat \<Rightarrow> 'r attempt_outcome) \<Rightarrow> int \<Rightarrow> 'r option \<times> fetch_event list" where
  \<comment> \<open>\<open>for attempt in range(retries + 1)\<close>\<close>
  "fetch_url outcome retries = fetch_attempts outcome retries [0 ..< nat (retries + 1)]"

definition retryable :: "'r attempt_outcome \<Rightarrow> bool" where
  \<comment> \<open>A failure after which the loop goes on.\<close>
  "retryable out =
     (case out of
        Success r \<Rightarrow> False
      | HTTPStatusError status_code \<Rightarrow> status_code \<notin> {404, 403, 401}
      | RequestError \<Rightarrow> True
      | OtherException \<Rightarrow> True)"

definition result_of :: "'r attempt_outcome \<Rightarrow> 'r option" where
  "result_of out = (case out of Success r \<Rightarrow> Some r | _ \<Rightarrow> None)"

definition backoff_trace :: "nat \<Rightarrow> nat \<Rightarrow> fetch_event list" where
  \<comment> \<open>Attempts \<open>s\<close> to \<open>k - 1\<close>, each followed by its sleep of \<open>2 ^ attempt\<close> seconds.\<close>
  "backoff_trace s k = concat (map (\<lambda>a. [Request a, Sleep (2 ^ a)]) [s ..< k])"

definition flaky_network :: "nat \<Rightarrow> string attempt_outcome" where
  \<comment> \<open>A timeout, then a 503, then a 404.\<close>
  "flaky_network a =
     (if a = 0 then RequestError else if a = 1 then HTTPStatusError 503
      else HTTPStatusError 404)"

definition dead_network :: "nat \<Rightarrow> string attempt_outcome" where
  "dead_network a = HTTPStatusError 500"

section \<open>app/services/sitemap.py: SitemapService\<close>







































section \<open>Theorems\<close>





lemma skewed_fields:
  "w1_frequency skewed_weights = 1 / 2" "w2_tfidf skewed_weights = 1 / 4"
  "w3_cooccurrence skewed_weights = 1 / 4" "w4_position_title skewed_weights = 1 / 2"
  "w5_similarity_brand skewed_weights = 1 / 2"
  by (simp_all add: skewed_weights_def)



text \<open>
  C10. On the all-zero weight vector \<open>normalize_weights\<close> divides nothing (so no
  ZeroDivisionError can arise) and leaves the five components at zero.
\<close>

theorem normalize_weights_all_zero:
  "normalize_weights zero_weights = Inr zero_weights \<and> weights_total zero_weights = 0"
  by (simp add: normalize_weights_def zero_weights_def weights_total_def)

subsection \<open>Bucket classification\<close>

lemma set_insert_desc: "set (insert_desc key x xs) = insert x (set xs)"
  by (induction xs) auto

lemma set_sort_desc: "set (sort_desc key xs) = set xs"
  by (induction xs) (simp_all add: set_insert_desc)

lemma length_insert_desc: "length (insert_desc key x xs) = Suc (length xs)"
  by (induction xs) auto

lemma length_sort_desc: "length (sort_desc key xs) = length xs"
  by (induction xs) (simp_all add: length_insert_desc)

lemma classify_score_irrelevant:
  "classify_keyword_bucket k s pt bi dk = classify_keyword_bucket k s' pt bi dk"
  by (simp add: classify_keyword_bucket_def classify_body_def)

lemma foldl_bucket_step:
  "foldl (bucket_step pt bi dk) bs ks =
   \<lparr>b_cliente = b_cliente bs @ filter (\<lambda>kd. classify_keyword_bucket (kw_term kd) (kw_score kd) pt bi dk = cliente) (map (\<lambda>kd. \<lparr>kw_term = kw_term kd, kw_score = kw_score kd\<rparr>) ks),
    b_producto_o_post = b_producto_o_post bs @ filter (\<lambda>kd. classify_keyword_bucket (kw_term kd) (kw_score kd) pt bi dk = producto_o_post) (map (\<lambda>kd. \<lparr>kw_term = kw_term kd, kw_score = kw_score kd\<rparr>) ks),
    b_generales_seo = b_generales_seo bs @ filter (\<lambda>kd. classify_keyword_bucket (kw_term kd) (kw_score kd) pt bi dk = generales_seo) (map (\<lambda>kd. \<lparr>kw_term = kw_term kd, kw_score = kw_score kd\<rparr>) ks)\<rparr>"
proof (induction ks arbitrary: bs)
  case Nil
  then show ?case by simp
next
  case (Cons k ks)
  show ?case
    apply (simp only: foldl_Cons Cons.IH)
    apply (cases "classify_keyword_bucket (kw_term k) (kw_score k) pt bi dk")
      apply (simp_all add: bucket_step_def bucket_append_def Let_def)
    done
qed

lemma rebuild_keyword: "(\<lambda>kd. \<lparr>kw_term = kw_term kd, kw_score = kw_score kd\<rparr>) = (\<lambda>kd. kd)"
  by (rule ext) simp

lemma loop_buckets:
  "b_cliente (foldl (bucket_step pt bi dk) empty_buckets ks) =
     filter (\<lambda>kd. classify_keyword_bucket (kw_term kd) (kw_score kd) pt bi dk = cliente) ks"
  "b_producto_o_post (foldl (bucket_step pt bi dk) empty_buckets ks) =
     filter (\<lambda>kd. classify_keyword_bucket (kw_term kd) (kw_score kd) pt bi dk = producto_o_post) ks"
  "b_generales_seo (foldl (bucket_step pt bi dk) empty_buckets ks) =
     filter (\<lambda>kd. classify_keyword_bucket (kw_term kd) (kw_score kd) pt bi dk = generales_seo) ks"
  by (simp_all add: foldl_bucket_step empty_buckets_def rebuild_keyword)

lemma terms_finish_subset: "terms_of (finish_bucket xs) \<subseteq> terms_of xs"
  unfolding terms_of_def finish_bucket_def
  using set_take_subset [of 30 "sort_desc kw_score xs"] by (auto simp: set_sort_desc)

lemma terms_finish_small: "length xs \<le> 30 \<Longrightarrow> terms_of (finish_bucket xs) = terms_of xs"
  unfolding terms_of_def finish_bucket_def by (simp add: length_sort_desc set_sort_desc)

lemma terms_filter_class:
  "t \<in> terms_of (filter (\<lambda>kd. classify_keyword_bucket (kw_term kd) (kw_score kd) pt bi dk = b) ks)
   \<Longrightarrow> classify_keyword_bucket t 0 pt bi dk = b \<and> t \<in> terms_of ks"
  unfolding terms_of_def using classify_score_irrelevant by fastforce

lemma terms_out_class:
  assumes "t \<in> terms_of (finish_bucket (filter (\<lambda>kd. classify_keyword_bucket (kw_term kd) (kw_score kd) pt bi dk = b) ks))"
  shows "classify_keyword_bucket t 0 pt bi dk = b \<and> t \<in> terms_of ks"
  using assms terms_finish_subset terms_filter_class by blast

text \<open>
  C1, as amended. For every input list of scored keywords the three buckets returned by
  \<open>bucketize_keywords\<close> are pairwise disjoint in their terms, and every term they hold
  is an input term; when no bucket receives more than 30 keywords (the cap applied after
  sorting), their union is exactly the set of input terms, so that each input term
  appears in exactly one bucket.
\<close>

theorem bucketize_partition:
  "terms_of (b_cliente (bucketize_keywords ks pt bi dk))
     \<inter> terms_of (b_producto_o_post (bucketize_keywords ks pt bi dk)) = {}
   \<and> terms_of (b_cliente (bucketize_keywords ks pt bi dk))
     \<inter> terms_of (b_generales_seo (bucketize_keywords ks pt bi dk)) = {}
   \<and> terms_of (b_producto_o_post (bucketize_keywords ks pt bi dk))
     \<inter> terms_of (b_generales_seo (bucketize_keywords ks pt bi dk)) = {}
   \<and> bucket_union (bucketize_keywords ks pt bi dk) \<subseteq> terms_of ks
   \<and> ((\<forall>b. received ks pt bi dk b \<le> 30)
        \<longrightarrow> bucket_union (bucketize_keywords ks pt bi dk) = terms_of ks)"
proof -
  let ?B = "bucketize_keywords ks pt bi dk"
  let ?F = "\<lambda>b. filter (\<lambda>kd. classify_keyword_bucket (kw_term kd) (kw_score kd) pt bi dk = b) ks"
  have c: "b_cliente ?B = finish_bucket (?F cliente)"
    and p: "b_producto_o_post ?B = finish_bucket (?F producto_o_post)"
    and g: "b_generales_seo ?B = finish_bucket (?F generales_seo)"
    by (simp_all add: bucketize_keywords_def Let_def loop_buckets)
  have cls: "classify_keyword_bucket t 0 pt bi dk = b \<and> t \<in> terms_of ks"
    if "t \<in> terms_of (finish_bucket (?F b))" for t b
    using that by (rule terms_out_class)
  have uniq: "b = b'"
    if "t \<in> terms_of (finish_bucket (?F b))" "t \<in> terms_of (finish_bucket (?F b'))" for t b b'
    using cls [OF that(1)] cls [OF that(2)] by simp
  have d1: "terms_of (b_cliente ?B) \<inter> terms_of (b_producto_o_post ?B) = {}"
  proof (rule ccontr)
    assume "terms_of (b_cliente ?B) \<inter> terms_of (b_producto_o_post ?B) \<noteq> {}"
    then obtain t where "t \<in> terms_of (finish_bucket (?F cliente))"
      "t \<in> terms_of (finish_bucket (?F producto_o_post))" unfolding c p by blast
    then have "cliente = producto_o_post" by (rule uniq)
    then show False by simp
  qed
  have d2: "terms_of (b_cliente ?B) \<inter> terms_of (b_generales_seo ?B) = {}"
  proof (rule ccontr)
    assume "terms_of (b_cliente ?B) \<inter> terms_of (b_generales_seo ?B) \<noteq> {}"
    then obtain t where "t \<in> terms_of (finish_bucket (?F cliente))"
      "t \<in> terms_of (finish_bucket (?F generales_seo))" unfolding c g by blast
    then have "cliente = generales_seo" by (rule uniq)
    then show False by simp
  qed
  have d3: "terms_of (b_producto_o_post ?B) \<inter> terms_of (b_generales_seo ?B) = {}"
  proof (rule ccontr)
    assume "terms_of (b_producto_o_post ?B) \<inter> terms_of (b_generales_seo ?B) \<noteq> {}"
    then obtain t where "t \<in> terms_of (finish_bucket (?F producto_o_post))"
      "t \<in> terms_of (finish_bucket (?F generales_seo))" unfolding p g by blast
    then have "producto_o_post = generales_seo" by (rule uniq)
    then show False by simp
  qed
  have sub: "bucket_union ?B \<subseteq> terms_of ks"
  proof
    fix t assume "t \<in> bucket_union ?B"
    then consider "t \<in> terms_of (finish_bucket (?F cliente))"
      | "t \<in> terms_of (finish_bucket (?F producto_o_post))"
      | "t \<in> terms_of (finish_bucket (?F generales_seo))"
      unfolding bucket_union_def c p g by blast
    then show "t \<in> terms_of ks" using cls by cases blast+
  qed
  have full: "bucket_union ?B = terms_of ks" if small: "\<forall>b. received ks pt bi dk b \<le> 30"
  proof -
    have len: "length (?F b) \<le> 30" for b using small by (simp add: received_def)
    have "bucket_union ?B = terms_of (?F cliente) \<union> terms_of (?F producto_o_post)
            \<union> terms_of (?F generales_seo)"
      unfolding bucket_union_def c p g by (simp add: terms_finish_small len)
    also have "\<dots> = terms_of ks"
    proof
      show "terms_of (?F cliente) \<union> terms_of (?F producto_o_post) \<union> terms_of (?F generales_seo)
            \<subseteq> terms_of ks"
        by (auto simp: terms_of_def)
      show "terms_of ks \<subseteq> terms_of (?F cliente) \<union> terms_of (?F producto_o_post)
            \<union> terms_of (?F generales_seo)"
      proof
        fix t assume "t \<in> terms_of ks"
        then obtain kd where kd: "kd \<in> set ks" "kw_term kd = t" by (auto simp: terms_of_def)
        show "t \<in> terms_of (?F cliente) \<union> terms_of (?F producto_o_post)
            \<union> terms_of (?F generales_seo)"
          using kd by (cases "classify_keyword_bucket (kw_term kd) (kw_score kd) pt bi dk")
            (auto simp: terms_of_def)
      qed
    qed
    finally show ?thesis .
  qed
  from d1 d2 d3 sub full show ?thesis by blast
qed

lemma classify_no_brand_mixto:
  "classify_keyword_bucket k s ''mixto'' no_brand None = producto_o_post"
  by (simp add: classify_keyword_bucket_def classify_body_def no_brand_def domain_freq_def
      py_lower_def)

lemma card_terms_le: "card (terms_of xs) \<le> length xs"
  unfolding terms_of_def by (metis card_image_le card_length le_trans List.finite_set)

lemma overflow_terms_card: "card (terms_of overflow_keywords) = 31"
proof -
  have "terms_of overflow_keywords = (\<lambda>n. replicate (Suc n) CHR ''a'') ` {0 ..< 31}"
    by (simp add: terms_of_def overflow_keywords_def image_image del: replicate_Suc)
  moreover have "inj_on (\<lambda>n. replicate (Suc n) CHR ''a'') {0 ..< 31}"
    by (rule inj_onI) (metis length_replicate nat.inject)
  ultimately show ?thesis by (simp add: card_image)
qed

text \<open>
  C1, as stated, fails: with 31 distinct keywords that all fall into the same bucket, the
  cap of 30 drops one, and the union of the buckets is no longer the input term set.
\<close>

theorem bucketize_union_counterexample:
  "bucket_union (bucketize_keywords overflow_keywords ''mixto'' no_brand None)
   \<noteq> terms_of overflow_keywords"
proof -
  let ?B = "bucketize_keywords overflow_keywords ''mixto'' no_brand None"
  have c: "b_cliente ?B = []" and g: "b_generales_seo ?B = []"
    and p: "b_producto_o_post ?B = finish_bucket overflow_keywords"
    by (simp_all add: bucketize_keywords_def Let_def loop_buckets classify_no_brand_mixto
        finish_bucket_def)
  have "card (bucket_union ?B) \<le> length (finish_bucket overflow_keywords)"
    by (simp add: bucket_union_def c g p terms_of_def [of "[]"] card_terms_le)
  also have "\<dots> \<le> 30" by (simp add: finish_bucket_def)
  finally have "card (bucket_union ?B) \<le> 30" .
  then show ?thesis using overflow_terms_card by auto
qed

theorem bucketize_partition_witness:
  "(\<forall>b. received sample_keywords ''ecommerce'' acme_brand (Some sample_domain_keywords) b \<le> 30)
   \<and> bucket_union (bucketize_keywords sample_keywords ''ecommerce'' acme_brand
        (Some sample_domain_keywords)) = {''acme shoes'', ''precio'', ''running''}"
proof -
  have r: "\<forall>b. received sample_keywords ''ecommerce'' acme_brand (Some sample_domain_keywords) b \<le> 30"
  proof
    fix b
    have "received sample_keywords ''ecommerce'' acme_brand (Some sample_domain_keywords) b
          \<le> length sample_keywords"
      unfolding received_def by (rule length_filter_le)
    then show "received sample_keywords ''ecommerce'' acme_brand (Some sample_domain_keywords) b \<le> 30"
      by (simp add: sample_keywords_def)
  qed
  have "terms_of sample_keywords = {''acme shoes'', ''precio'', ''running''}"
    by (simp add: terms_of_def sample_keywords_def)
  with r bucketize_partition [of sample_keywords "''ecommerce''" acme_brand
      "Some sample_domain_keywords"]
  show ?thesis by simp
qed

subsection \<open>Keyword score\<close>

text \<open>
  C3. For every keyword, text data, brand info and weight vector (given, or absent and
  then taken from the settings, as every caller does) the score returned by
  \<open>calculate_keyword_score\<close> lies in the closed interval [0,1]. A sub-score whose
  computation raises contributes 0 for its factor and the weighted sum is still formed
  from the other four: shown for the frequency factor (the text utilities raise) and the
  TF-IDF factor (the vectoriser raises), the two whose computation can raise on
  well-typed inputs.
\<close>

theorem calculate_keyword_score_bounded:
  "0 \<le> calculate_keyword_score env keyword text_data brand_info weights_opt
   \<and> calculate_keyword_score env keyword text_data brand_info weights_opt \<le> 1
   \<and> (frequency_body env keyword text_data = Inl e1 \<longrightarrow>
        calculate_keyword_score env keyword text_data brand_info weights_opt =
          max 0 (min 1 (w1_frequency (effective_weights env weights_opt) * 0
            + w2_tfidf (effective_weights env weights_opt)
                * calculate_tfidf_score env keyword text_data
            + w3_cooccurrence (effective_weights env weights_opt)
                * calculate_cooccurrence_score keyword text_data
            + w4_position_title (effective_weights env weights_opt)
                * calculate_position_score keyword text_data
            + w5_similarity_brand (effective_weights env weights_opt)
                * calculate_similarity_score keyword brand_info)))
   \<and> (tfidf_features env [main_content text_data @ '' '' @ py_str_opt (title (meta text_data))
            @ '' '' @ py_str_opt (description (meta text_data))] = Inl e2 \<longrightarrow>
        calculate_keyword_score env keyword text_data brand_info weights_opt =
          max 0 (min 1 (w1_frequency (effective_weights env weights_opt)
                * calculate_frequency_score env keyword text_data
            + w2_tfidf (effective_weights env weights_opt) * 0
            + w3_cooccurrence (effective_weights env weights_opt)
                * calculate_cooccurrence_score keyword text_data
            + w4_position_title (effective_weights env weights_opt)
                * calculate_position_score keyword text_data
            + w5_similarity_brand (effective_weights env weights_opt)
                * calculate_similarity_score keyword brand_info)))"
proof -
  have r: "0 \<le> calculate_keyword_score env keyword text_data brand_info weights_opt
      \<and> calculate_keyword_score env keyword text_data brand_info weights_opt \<le> 1"
    by (simp add: calculate_keyword_score_def Let_def)
  have f: "calculate_frequency_score env keyword text_data = 0"
    if "frequency_body env keyword text_data = Inl e1"
    using that by (simp add: calculate_frequency_score_def or_zero_def)
  have t: "calculate_tfidf_score env keyword text_data = 0"
    if "tfidf_features env [main_content text_data @ '' '' @ py_str_opt (title (meta text_data))
            @ '' '' @ py_str_opt (description (meta text_data))] = Inl e2"
    using that
    by (simp add: calculate_tfidf_score_def or_zero_def tfidf_body_def
        calculate_tfidf_scores_def Let_def)
  show ?thesis using r f t by (simp add: calculate_keyword_score_def Let_def)
qed

lemma sample_cooc: "calculate_cooccurrence_score ''Acme'' sample_text = 1"
  by code_simp

lemma sample_pos: "calculate_position_score ''Acme'' sample_text = 1"
  by code_simp

lemma sample_sim: "calculate_similarity_score ''Acme'' acme_brand = 1"
  by code_simp

lemma sample_freq_fails: "frequency_body failing_env ''Acme'' sample_text = Inl TypeError"
  by (simp add: frequency_body_def failing_env_def Let_def)

lemma sample_tfidf_fails:
  "tfidf_features failing_env [main_content sample_text @ '' ''
     @ py_str_opt (title (meta sample_text)) @ '' ''
     @ py_str_opt (description (meta sample_text))] = Inl TypeError"
  by (simp add: failing_env_def)

lemma sample_effective:
  "effective_weights failing_env None = default_weights"
  "effective_weights failing_env (Some skewed_weights) = skewed_weights"
  by (simp_all add: effective_weights_def failing_env_def)

theorem calculate_keyword_score_bounded_witness:
  "calculate_keyword_score failing_env ''Acme'' sample_text acme_brand None = 0.45
   \<and> calculate_keyword_score failing_env ''Acme'' sample_text acme_brand (Some skewed_weights)
       = 1"
proof -
  have f0: "calculate_frequency_score failing_env ''Acme'' sample_text = 0"
    by (simp add: calculate_frequency_score_def or_zero_def sample_freq_fails)
  have "calculate_keyword_score failing_env ''Acme'' sample_text acme_brand None = 0.45"
    using calculate_keyword_score_bounded [of failing_env "''Acme''" sample_text acme_brand
        None TypeError TypeError] sample_tfidf_fails f0
    by (simp add: sample_effective sample_cooc sample_pos sample_sim default_weights_def)
  moreover
  have "calculate_keyword_score failing_env ''Acme'' sample_text acme_brand
      (Some skewed_weights) = 1"
    using calculate_keyword_score_bounded [of failing_env "''Acme''" sample_text acme_brand
        "Some skewed_weights" TypeError TypeError] sample_tfidf_fails f0
    by (simp add: sample_effective sample_cooc sample_pos sample_sim skewed_fields)
  ultimately show ?thesis by blast
qed

subsection \<open>Semantic deduplication\<close>

lemma dedup_inner_mono: "to_remove \<subseteq> dedup_inner sim thr ks i js to_remove"
proof (induction js arbitrary: to_remove)
  case Nil
  then show ?case by simp
next
  case (Cons j js)
  have "to_remove \<subseteq> insert j to_remove" by blast
  also have "\<dots> \<subseteq> dedup_inner sim thr ks i js (insert j to_remove)" by (rule Cons.IH)
  finally have "to_remove \<subseteq> dedup_inner sim thr ks i js (insert j to_remove)" .
  with Cons.IH [of to_remove] show ?case by auto
qed

lemma dedup_inner_post:
  assumes "i \<notin> to_remove" "i \<notin> set js"
  shows "i \<in> dedup_inner sim thr ks i js to_remove
     \<or> (\<forall>j \<in> set js. j \<in> dedup_inner sim thr ks i js to_remove \<or> \<not> sim i j > thr)"
  using assms
proof (induction js arbitrary: to_remove)
  case Nil
  then show ?case by simp
next
  case (Cons j js)
  have ij: "i \<noteq> j" and ijs: "i \<notin> set js" using Cons.prems(2) by auto
  show ?case
  proof (cases "j \<in> to_remove")
    case True
    then have "j \<in> dedup_inner sim thr ks i js to_remove" using dedup_inner_mono by blast
    with True Cons.IH [OF Cons.prems(1) ijs] show ?thesis by auto
  next
    case False
    show ?thesis
    proof (cases "sim i j > thr")
      case sim: True
      show ?thesis
      proof (cases "kc_score (ks ! i) \<ge> kc_score (ks ! j)")
        case True
        have ni: "i \<notin> insert j to_remove" using ij Cons.prems(1) by simp
        have "j \<in> dedup_inner sim thr ks i js (insert j to_remove)"
          using dedup_inner_mono by blast
        with False sim True Cons.IH [OF ni ijs] show ?thesis by auto
      next
        case False
        with \<open>j \<notin> to_remove\<close> sim show ?thesis by simp
      qed
    next
      case False
      with \<open>j \<notin> to_remove\<close> Cons.IH [OF Cons.prems(1) ijs] show ?thesis by auto
    qed
  qed
qed

lemma dedup_outer_step_mono: "to_remove \<subseteq> dedup_outer_step sim thr ks to_remove i"
  by (simp add: dedup_outer_step_def dedup_inner_mono)

lemma dedup_outer_mono: "to_remove \<subseteq> foldl (dedup_outer_step sim thr ks) to_remove is"
proof (induction "is" arbitrary: to_remove)
  case Nil
  then show ?case by simp
next
  case (Cons i "is")
  have "to_remove \<subseteq> dedup_outer_step sim thr ks to_remove i" by (rule dedup_outer_step_mono)
  also have "\<dots> \<subseteq> foldl (dedup_outer_step sim thr ks) (dedup_outer_step sim thr ks to_remove i) is"
    by (rule Cons.IH)
  finally show ?case by simp
qed

lemma dedup_outer_post:
  assumes "i \<in> set is" "i \<notin> foldl (dedup_outer_step sim thr ks) to_remove is"
    and "i < j" "j < length ks"
  shows "j \<in> foldl (dedup_outer_step sim thr ks) to_remove is \<or> \<not> sim i j > thr"
  using assms(1,2)
proof (induction "is" arbitrary: to_remove)
  case Nil
  then show ?case by simp
next
  case (Cons a "is")
  let ?r = "dedup_outer_step sim thr ks to_remove a"
  let ?R = "foldl (dedup_outer_step sim thr ks) ?r is"
  have R: "foldl (dedup_outer_step sim thr ks) to_remove (a # is) = ?R" by simp
  have sub: "?r \<subseteq> ?R" by (rule dedup_outer_mono)
  have notR: "i \<notin> ?R" using Cons.prems(2) by simp
  show ?case
  proof (cases "i = a")
    case True
    have ni: "i \<notin> to_remove" using notR sub dedup_outer_step_mono [of to_remove sim thr ks a] by blast
    then have r: "?r = dedup_inner sim thr ks i [Suc i ..< length ks] to_remove"
      using True by (simp add: dedup_outer_step_def)
    have "i \<notin> set [Suc i ..< length ks]" by simp
    from dedup_inner_post [OF ni this, of sim thr ks]
    have "i \<in> ?r \<or> (\<forall>j \<in> set [Suc i ..< length ks]. j \<in> ?r \<or> \<not> sim i j > thr)"
      unfolding r .
    moreover have "i \<notin> ?r" using notR sub by blast
    moreover have "j \<in> set [Suc i ..< length ks]" using assms(3,4) by simp
    ultimately have "j \<in> ?r \<or> \<not> sim i j > thr" by blast
    with sub show ?thesis unfolding R by blast
  next
    case False
    with Cons.prems(1) have "i \<in> set is" by simp
    from Cons.IH [OF this notR] show ?thesis unfolding R .
  qed
qed

lemma dedup_to_remove_post:
  assumes "i < j" "j < length ks"
    and "i \<notin> dedup_to_remove sim thr ks" "j \<notin> dedup_to_remove sim thr ks"
  shows "\<not> sim i j > thr"
proof -
  have "i \<in> set [0 ..< length ks]" using assms(1,2) by simp
  from dedup_outer_post [OF this, of sim thr ks "{}" j] assms
  show ?thesis unfolding dedup_to_remove_def by blast
qed


lemma keep_indices_pairwise:
  assumes "\<And>i j. i < j \<Longrightarrow> j < length xs \<Longrightarrow> i \<notin> R \<Longrightarrow> j \<notin> R \<Longrightarrow> P (xs ! i) (xs ! j)"
  shows "sorted_wrt P (keep_indices R xs)"
proof -
  let ?Q = "\<lambda>(p::nat \<times> 'a) (q::nat \<times> 'a). fst p \<notin> R \<longrightarrow> fst q \<notin> R \<longrightarrow> P (snd p) (snd q)"
  have "sorted_wrt ?Q (enumerate 0 xs)"
    unfolding sorted_wrt_iff_nth_less using assms by (simp add: nth_enumerate_eq)
  then have "sorted_wrt ?Q (filter (\<lambda>(i, kw). i \<notin> R) (enumerate 0 xs))"
    by (rule sorted_wrt_filter)
  then have "sorted_wrt (\<lambda>p q. P (snd p) (snd q)) (filter (\<lambda>(i, kw). i \<notin> R) (enumerate 0 xs))"
    by (rule sorted_wrt_mono_rel [rotated]) auto
  then show ?thesis by (simp add: keep_indices_def sorted_wrt_map)
qed

lemma dedup_inner_none:
  assumes "\<And>j. j \<in> set js \<Longrightarrow> \<not> sim i j > thr"
  shows "dedup_inner sim thr ks i js {} = {}"
  using assms by (induction js) simp_all

lemma dedup_outer_none:
  assumes "\<And>i j. i < j \<Longrightarrow> j < length ks \<Longrightarrow> \<not> sim i j > thr"
  shows "foldl (dedup_outer_step sim thr ks) {} is = {}"
proof (induction "is")
  case Nil
  then show ?case by simp
next
  case (Cons i "is")
  have "dedup_inner sim thr ks i [Suc i ..< length ks] {} = {}"
    by (rule dedup_inner_none) (use assms in simp)
  then have "dedup_outer_step sim thr ks {} i = {}" by (simp add: dedup_outer_step_def)
  with Cons.IH show ?case by simp
qed

lemma keep_indices_empty: "keep_indices {} xs = xs"
  by (simp add: keep_indices_def)

lemma dedup_fixed_point:
  assumes "sorted_wrt (\<lambda>a b. \<not> cosine_similarity env (encode (kc_term a)) (encode (kc_term b))
              > similarity_threshold env) ks"
    and "sentence_transformer env = Some encode"
  shows "deduplicate_by_similarity env ks = ks"
proof (cases "length ks \<le> 1")
  case True
  then show ?thesis by (simp add: deduplicate_by_similarity_def)
next
  case False
  let ?sim = "\<lambda>i j. cosine_similarity env (map encode (map kc_term ks) ! i)
      (map encode (map kc_term ks) ! j)"
  have "dedup_to_remove ?sim (similarity_threshold env) ks = {}"
    unfolding dedup_to_remove_def
  proof (rule dedup_outer_none)
    fix i j assume ij: "i < j" "j < length ks"
    then have "\<not> cosine_similarity env (encode (kc_term (ks ! i))) (encode (kc_term (ks ! j)))
        > similarity_threshold env"
      using assms(1) by (simp add: sorted_wrt_iff_nth_less)
    then show "\<not> ?sim i j > similarity_threshold env" using ij by simp
  qed
  then show ?thesis
    using False assms(2) by (simp add: deduplicate_by_similarity_def Let_def keep_indices_empty)
qed

text \<open>
  C2. Semantic deduplication is idempotent: run on its own output it returns that output
  unchanged, for every list of keyword candidates, every embedder and every threshold.
  A keyword that survives was compared with every later survivor and found not similar,
  so a second run finds nothing to remove.
\<close>

theorem deduplicate_by_similarity_idempotent:
  "deduplicate_by_similarity env (deduplicate_by_similarity env keywords) =
   deduplicate_by_similarity env keywords"
proof (cases "length keywords \<le> 1")
  case True
  then show ?thesis by (simp add: deduplicate_by_similarity_def)
next
  case long: False
  show ?thesis
  proof (cases "sentence_transformer env")
    case None
    then show ?thesis by (simp add: deduplicate_by_similarity_def)
  next
    case (Some encode)
    let ?sim = "\<lambda>i j. cosine_similarity env (map encode (map kc_term keywords) ! i)
        (map encode (map kc_term keywords) ! j)"
    let ?R = "dedup_to_remove ?sim (similarity_threshold env) keywords"
    have out: "deduplicate_by_similarity env keywords = keep_indices ?R keywords"
      using long Some by (simp add: deduplicate_by_similarity_def Let_def)
    have "sorted_wrt (\<lambda>a b. \<not> cosine_similarity env (encode (kc_term a)) (encode (kc_term b))
              > similarity_threshold env) (keep_indices ?R keywords)"
    proof (rule keep_indices_pairwise)
      fix i j assume ij: "i < j" "j < length keywords" and "i \<notin> ?R" "j \<notin> ?R"
      then have "\<not> ?sim i j > similarity_threshold env" by (rule dedup_to_remove_post)
      then show "\<not> cosine_similarity env (encode (kc_term (keywords ! i)))
          (encode (kc_term (keywords ! j))) > similarity_threshold env"
        using ij by simp
    qed
    then have "deduplicate_by_similarity env (keep_indices ?R keywords) = keep_indices ?R keywords"
      using Some by (rule dedup_fixed_point)
    then show ?thesis unfolding out .
  qed
qed

lemma dedup_laptops:
  "deduplicate_by_similarity laptop_env laptop_candidates =
     [\<lparr>kc_term = ''best laptop'', kc_score = 0.9, kc_source = ''yake''\<rparr>,
      \<lparr>kc_term = ''red shoes'', kc_score = 0.5, kc_source = ''yake''\<rparr>]"
  by code_simp

theorem deduplicate_by_similarity_idempotent_witness:
  "deduplicate_by_similarity laptop_env
     (deduplicate_by_similarity laptop_env laptop_candidates) =
     [\<lparr>kc_term = ''best laptop'', kc_score = 0.9, kc_source = ''yake''\<rparr>,
      \<lparr>kc_term = ''red shoes'', kc_score = 0.5, kc_source = ''yake''\<rparr>]"
  using deduplicate_by_similarity_idempotent [of laptop_env laptop_candidates]
  by (simp only: dedup_laptops)

subsection \<open>Keyword extraction\<close>

lemma extract_keywords_invokes_providers:
  assumes "text \<noteq> []" "\<not> length (py_strip text) < 50" "nlp_normalize_text env text = Inr n"
  shows "snd (extract_keywords env text max_keywords) = [''yake'', ''keybert'']"
  using assms by (simp add: extract_keywords_def Let_def)

text \<open>
  C9. For every input text that is empty, or shorter than 50 characters once its
  surrounding whitespace is stripped, keyword extraction returns the empty list and
  invokes neither provider.
\<close>

theorem extract_keywords_short_text:
  assumes "text = [] \<or> length (py_strip text) < 50"
  shows "extract_keywords env text max_keywords = ([], [])"
  using assms by (auto simp add: extract_keywords_def)

theorem extract_keywords_short_text_witness:
  "length (py_strip ''   hola mundo   '') < 50
   \<and> extract_keywords fixed_providers_env ''   hola mundo   '' 50 = ([], [])"
proof -
  have s: "length (py_strip ''   hola mundo   '') < 50" by code_simp
  then have "''   hola mundo   '' = [] \<or> length (py_strip ''   hola mundo   '') < 50" by simp
  from extract_keywords_short_text [OF this] s show ?thesis by simp
qed

subsection \<open>Domain analysis\<close>

lemma valid_results_of_none:
  "(\<forall>g \<in> set gs. \<forall>r. g \<noteq> Response r) \<Longrightarrow> valid_results_of gs = []"
  by (induction gs rule: valid_results_of.induct) auto

text \<open>
  C8. When a domain run has selected at least one URL and no page is analysed
  successfully (every task ends in \<open>None\<close> or in an exception), \<open>analyze_domain\<close>
  raises the HTTP error 500 to its caller and returns no summary.
\<close>

theorem analyze_domain_no_valid_results:
  assumes "urls_to_process \<noteq> []"
    and "\<forall>u \<in> set urls_to_process. \<forall>r. process_url u \<noteq> Response r"
  shows "analyze_domain request_domain urls_to_process process_url =
     Inl (HTTPException 500 no_valid_urls_detail)"
proof -
  have "valid_results_of (map process_url urls_to_process) = []"
    by (rule valid_results_of_none) (use assms(2) in auto)
  with assms(1) show ?thesis by (simp add: analyze_domain_def Let_def)
qed

theorem analyze_domain_no_valid_results_witness:
  "analyze_domain ''https://example.com''
     [''https://example.com/a'', ''https://example.com/b'']
     (\<lambda>u. if u = ''https://example.com/a'' then NoneResult else ExceptionResult TypeError)
   = Inl (HTTPException 500 no_valid_urls_detail)"
proof -
  have n: "[''https://example.com/a'', ''https://example.com/b''] \<noteq> []" by simp
  have f: "\<forall>u \<in> set [''https://example.com/a'', ''https://example.com/b''].
        \<forall>r. (\<lambda>u. if u = ''https://example.com/a'' then NoneResult
                   else ExceptionResult TypeError) u \<noteq> Response r"
    by simp
  from analyze_domain_no_valid_results [OF n f] show ?thesis .
qed

subsection \<open>Fetching with retries\<close>

lemma backoff_trace_step: "s < k \<Longrightarrow> backoff_trace s k = Request s # Sleep (2 ^ s) # backoff_trace (Suc s) k"
  by (simp add: backoff_trace_def upt_conv_Cons)

lemma backoff_trace_empty: "backoff_trace k k = []"
  by (simp add: backoff_trace_def)

lemma fetch_stop:
  "\<not> retryable (outcome a) \<Longrightarrow>
   fetch_attempts outcome retries (a # rest) = (result_of (outcome a), [Request a])"
  by (cases "outcome a") (simp_all add: retryable_def result_of_def)

lemma fetch_continue:
  "retryable (outcome a) \<Longrightarrow>
   fetch_attempts outcome retries (a # rest) =
     (fst (fetch_attempts outcome retries rest),
      Request a # (if int a < retries then [Sleep (2 ^ a)] else [])
        @ snd (fetch_attempts outcome retries rest))"
  by (cases "outcome a") (simp_all add: retryable_def split_beta)

lemma result_of_retryable: "retryable out \<Longrightarrow> result_of out = None"
  by (cases out) (simp_all add: retryable_def result_of_def)

lemma fetch_attempts_run:
  assumes "0 \<le> retries" "s \<le> k" "k \<le> nat retries"
    and "\<And>a. s \<le> a \<Longrightarrow> a < k \<Longrightarrow> retryable (outcome a)"
    and "k = nat retries \<or> \<not> retryable (outcome k)"
  shows "fetch_attempts outcome retries [s ..< Suc (nat retries)] =
     (result_of (outcome k), backoff_trace s k @ [Request k])"
  using assms(2,4)
proof (induction "k - s" arbitrary: s)
  case 0
  then have sk: "s = k" by simp
  have l: "[k ..< Suc (nat retries)] = k # [Suc k ..< Suc (nat retries)]"
    using assms(3) by (simp add: upt_conv_Cons del: upt_Suc)
  have "fetch_attempts outcome retries (k # [Suc k ..< Suc (nat retries)]) =
     (result_of (outcome k), [Request k])"
  proof (cases "retryable (outcome k)")
    case False
    then show ?thesis by (rule fetch_stop)
  next
    case True
    with assms(5) have kn: "k = nat retries" by simp
    then have nl: "\<not> int k < retries" using assms(1) by simp
    have e: "[Suc k ..< Suc (nat retries)] = []" using kn by simp
    show ?thesis
      unfolding e
      by (subst fetch_continue [of outcome k, OF True])
         (use nl in \<open>simp add: result_of_retryable [OF True]\<close>)
  qed
  then show ?case unfolding sk l [symmetric] by (simp add: backoff_trace_empty del: upt_Suc)
next
  case (Suc d)
  then have sk: "s < k" by simp
  then have sn: "s < nat retries" using assms(3) by simp
  then have lt: "int s < retries" by simp
  have l: "[s ..< Suc (nat retries)] = s # [Suc s ..< Suc (nat retries)]"
    using sn by (simp add: upt_conv_Cons del: upt_Suc)
  have r: "retryable (outcome s)" using Suc.prems(2) sk by simp
  have ih: "fetch_attempts outcome retries [Suc s ..< Suc (nat retries)] =
     (result_of (outcome k), backoff_trace (Suc s) k @ [Request k])"
  proof (rule Suc.hyps(1))
    show "d = k - Suc s" using Suc.hyps(2) by simp
    show "Suc s \<le> k" using sk by simp
    show "\<And>a. Suc s \<le> a \<Longrightarrow> a < k \<Longrightarrow> retryable (outcome a)" using Suc.prems(2) by simp
  qed
  have "fetch_attempts outcome retries (s # [Suc s ..< Suc (nat retries)]) =
     (result_of (outcome k), backoff_trace s k @ [Request k])"
    by (subst fetch_continue [of outcome s, OF r])
       (use lt in \<open>simp only: ih fst_conv snd_conv if_True backoff_trace_step [OF sk] append.simps\<close>)
  then show ?case unfolding l .
qed

lemma fetch_url_run:
  assumes "0 \<le> retries" "k \<le> nat retries"
    and "\<And>a. a < k \<Longrightarrow> retryable (outcome a)"
    and "k = nat retries \<or> \<not> retryable (outcome k)"
  shows "fetch_url outcome retries = (result_of (outcome k), backoff_trace 0 k @ [Request k])"
proof -
  have "nat (retries + 1) = Suc (nat retries)" using assms(1) by simp
  moreover have "fetch_attempts outcome retries [0 ..< Suc (nat retries)] =
     (result_of (outcome k), backoff_trace 0 k @ [Request k])"
    by (rule fetch_attempts_run [OF assms(1) le0 assms(2)]) (use assms(3,4) in auto)
  ultimately show ?thesis unfolding fetch_url_def by (simp del: upt_Suc)
qed


lemma fetch_attempts_requests:
  "length (filter (\<lambda>e. \<exists>a. e = Request a) (snd (fetch_attempts outcome retries as))) \<le> length as"
proof (induction as)
  case Nil
  then show ?case by simp
next
  case (Cons a as)
  show ?case
  proof (cases "retryable (outcome a)")
    case True
    show ?thesis using Cons.IH by (subst fetch_continue [of outcome a, OF True]) simp
  next
    case False
    show ?thesis by (subst fetch_stop [of outcome a, OF False]) simp
  qed
qed

text \<open>
  C7. \<open>fetch_url\<close> never issues more than \<open>retries + 1\<close> requests. After \<open>k\<close> failed
  attempts that call for a retry, each followed by a sleep of \<open>2 ^ attempt\<close> seconds:
  a status 401, 403 or 404 at attempt \<open>k\<close> ends the loop at once, with no further sleep
  or request, and \<open>None\<close> is returned; a failure at the last attempt (\<open>k = retries\<close>)
  returns \<open>None\<close>; a success returns the response. The function has no path on which
  an exception leaves it.
\<close>

theorem fetch_url_retry_policy:
  assumes "0 \<le> retries" "k \<le> nat retries" "\<forall>a < k. retryable (outcome a)"
  shows "length (filter (\<lambda>e. \<exists>a. e = Request a) (snd (fetch_url outcome retries)))
           \<le> nat (retries + 1)
     \<and> (outcome k = HTTPStatusError c \<and> c \<in> {401, 403, 404} \<longrightarrow>
          fetch_url outcome retries = (None, backoff_trace 0 k @ [Request k]))
     \<and> (k = nat retries \<and> retryable (outcome k) \<longrightarrow>
          fetch_url outcome retries = (None, backoff_trace 0 k @ [Request k]))
     \<and> (outcome k = Success r \<longrightarrow>
          fetch_url outcome retries = (Some r, backoff_trace 0 k @ [Request k]))"
proof -
  have run: "fetch_url outcome retries = (result_of (outcome k), backoff_trace 0 k @ [Request k])"
    if "k = nat retries \<or> \<not> retryable (outcome k)"
    by (rule fetch_url_run [OF assms(1,2)]) (use assms(3) that in auto)
  have n: "length (filter (\<lambda>e. \<exists>a. e = Request a) (snd (fetch_url outcome retries)))
           \<le> nat (retries + 1)"
    unfolding fetch_url_def using fetch_attempts_requests [of outcome retries "[0 ..< nat (retries + 1)]"]
    by simp
  have t: "fetch_url outcome retries = (None, backoff_trace 0 k @ [Request k])"
    if "outcome k = HTTPStatusError c \<and> c \<in> {401, 403, 404}"
    using run that by (auto simp: retryable_def result_of_def)
  have x: "fetch_url outcome retries = (None, backoff_trace 0 k @ [Request k])"
    if "k = nat retries \<and> retryable (outcome k)"
    using run that by (auto simp: result_of_retryable)
  have s: "fetch_url outcome retries = (Some r, backoff_trace 0 k @ [Request k])"
    if "outcome k = Success r"
    using run that by (simp add: retryable_def result_of_def)
  from n t x s show ?thesis by blast
qed

lemma flaky_retryable: "\<forall>a < 2. retryable (flaky_network a)"
proof (intro allI impI)
  fix a :: nat assume "a < 2"
  then have "a = 0 \<or> a = 1" by auto
  then show "retryable (flaky_network a)" by (auto simp: retryable_def flaky_network_def)
qed

lemma dead_retryable: "\<forall>a < 3. retryable (dead_network a)"
  by (simp add: retryable_def dead_network_def)

theorem fetch_url_retry_policy_witness:
  "fetch_url flaky_network 3 = (None, [Request 0, Sleep 1, Request 1, Sleep 2, Request 2])
   \<and> fetch_url dead_network 3 =
       (None, [Request 0, Sleep 1, Request 1, Sleep 2, Request 2, Sleep 4, Request 3])"
proof -
  have r0: "(0::int) \<le> 3" by simp
  have k2: "(2::nat) \<le> nat 3" by simp
  have k3: "(3::nat) \<le> nat 3" by simp
  have f: "flaky_network 2 = HTTPStatusError 404 \<and> (404::nat) \<in> {401, 403, 404}"
    by (simp add: flaky_network_def)
  have d: "(3::nat) = nat 3 \<and> retryable (dead_network 3)"
    by (simp add: retryable_def dead_network_def)
  have b2: "backoff_trace 0 2 @ [Request 2] = [Request 0, Sleep 1, Request 1, Sleep 2, Request 2]"
    by (simp add: backoff_trace_def upt_conv_Cons)
  have b3: "backoff_trace 0 3 @ [Request 3] =
      [Request 0, Sleep 1, Request 1, Sleep 2, Request 2, Sleep 4, Request 3]"
    by (simp add: backoff_trace_def upt_conv_Cons)
  from fetch_url_retry_policy [OF r0 k2 flaky_retryable, of 404] f
  have "fetch_url flaky_network 3 = (None, backoff_trace 0 2 @ [Request 2])" by blast
  moreover from fetch_url_retry_policy [OF r0 k3 dead_retryable] d
  have "fetch_url dead_network 3 = (None, backoff_trace 0 3 @ [Request 3])" by blast
  ultimately show ?thesis unfolding b2 b3 by blast
qed

subsection \<open>URL selection\<close>


























end
